theory Spec2Isabelle
  imports Main "HOL-Library.Word" "HOL-Library.Sublist"
begin

section \<open>JavaScript values used by the admin views\<close>

text \<open>
  A JavaScript string is the sequence of its UTF-16 code units. String literals of the
  source are written \<open>js ''...''\<close>.
\<close>

type_synonym jsstring = "16 word list"

definition js :: "string \<Rightarrow> jsstring" where
  "js s = map (\<lambda>c. of_nat (of_char c)) s"

text \<open>
  A JavaScript number as far as the views need it: \<open>NaN\<close> or an integer. (The doubles of
  the source round integers beyond \<open>2^53\<close>; no property below depends on the rounding.)
\<close>

datatype number = NaN | Num int

text \<open>\<^verbatim>\<open>x || d\<close> for an optional string \<open>x\<close>: \<^verbatim>\<open>undefined\<close> and \<^verbatim>\<open>""\<close> are falsy.\<close>

definition or_default :: "jsstring option \<Rightarrow> jsstring \<Rightarrow> jsstring" where
  "or_default x d = (case x of None \<Rightarrow> d | Some s \<Rightarrow> if s = [] then d else s)"

text \<open>\<^verbatim>\<open>n || 0\<close> for a number \<open>n\<close>: \<^verbatim>\<open>NaN\<close> and \<^verbatim>\<open>0\<close> are falsy.\<close>

definition or_zero :: "number \<Rightarrow> number" where
  "or_zero n = (case n of NaN \<Rightarrow> Num 0 | Num k \<Rightarrow> if k = 0 then Num 0 else Num k)"

text \<open>\<^verbatim>\<open>s.includes(t)\<close>: \<open>t\<close> occurs in \<open>s\<close> as a contiguous run of code units.\<close>

definition includes_str :: "jsstring \<Rightarrow> jsstring \<Rightarrow> bool" where
  "includes_str s t = sublist t s"

subsection \<open>\<^verbatim>\<open>Number.parseInt\<close> with no radix argument\<close>

text \<open>White space and line terminators, which \<^verbatim>\<open>parseInt\<close> skips at the start.\<close>

definition isWhiteSpace :: "16 word \<Rightarrow> bool" where
  "isWhiteSpace c =
     ((0x09 \<le> c \<and> c \<le> 0x0D) \<or> c = 0x20 \<or> c = 0xA0 \<or> c = 0x1680
      \<or> (0x2000 \<le> c \<and> c \<le> 0x200A) \<or> c = 0x2028 \<or> c = 0x2029 \<or> c = 0x202F
      \<or> c = 0x205F \<or> c = 0x3000 \<or> c = 0xFEFF)"

text \<open>The value of a digit or letter; 36 for every other code unit.\<close>

definition digitValue :: "16 word \<Rightarrow> nat" where
  "digitValue c =
     (if 0x30 \<le> c \<and> c \<le> 0x39 then unat c - 0x30
      else if 0x61 \<le> c \<and> c \<le> 0x7A then unat c - 0x61 + 10
      else if 0x41 \<le> c \<and> c \<le> 0x5A then unat c - 0x41 + 10
      else 36)"

definition digitsValue :: "nat \<Rightarrow> jsstring \<Rightarrow> nat" where
  "digitsValue R z = foldl (\<lambda>a c. a * R + digitValue c) 0 z"

definition parseDigits :: "int \<Rightarrow> nat \<Rightarrow> jsstring \<Rightarrow> number" where
  "parseDigits sign R s =
     (let z = takeWhile (\<lambda>c. digitValue c < R) s
      in if z = [] then NaN else Num (sign * int (digitsValue R z)))"

definition parsePrefix :: "int \<Rightarrow> jsstring \<Rightarrow> number" where
  "parsePrefix sign s =
     (if take 2 s = js ''0x'' \<or> take 2 s = js ''0X''
      then parseDigits sign 16 (drop 2 s)
      else parseDigits sign 10 s)"

definition parseInt :: "jsstring \<Rightarrow> number" where
  "parseInt str =
     (case dropWhile isWhiteSpace str of
        [] \<Rightarrow> NaN
      | c # cs \<Rightarrow>
          if c = 0x2D then parsePrefix (- 1) cs
          else if c = 0x2B then parsePrefix 1 cs
          else parsePrefix 1 (c # cs))"

section \<open>Data model\<close>

text \<open>The response envelope of \<^verbatim>\<open>src/types/home-types.ts\<close>: every field but \<open>success\<close> is optional.\<close>

record 'a ApiResponse =
  success :: bool
  data :: "'a option"
  message :: "jsstring option"
  error :: "jsstring option"

text \<open>
  The event types are imported from \<^verbatim>\<open>@/types/events-types\<close>; the records hold the fields
  of an event and of a day that the view reads (\<open>_id\<close> is \<open>event_id\<close> and \<open>day_id\<close>), without
  the sessions of a day, which only the rendering reads. \<open>days\<close> is read through optional
  chaining and may be absent.
\<close>

record Event =
  event_id :: jsstring
  name :: jsstring
  description :: jsstring
  startDate :: jsstring
  endDate :: jsstring
  totalDays :: int

record EventDay =
  day_id :: jsstring
  dayNumber :: int
  name :: jsstring
  description :: jsstring

record EventWithDays =
  event :: Event
  days :: "EventDay list option"

record CreateEventData =
  name :: jsstring
  description :: jsstring
  startDate :: jsstring
  endDate :: jsstring
  year :: number
  month :: number

text \<open>What an awaited service call gives: the value the promise resolves to, or a throw.\<close>

datatype 'a outcome = Resolved 'a | Rejected

text \<open>
  The actions a handler performs, in program order: notifications, state setters, service
  calls. The trace of a handler is the list of its actions.
\<close>

datatype effect =
    PreventDefault
  | Toast jsstring jsstring
  | SetIsLoading bool
  | SetIsDeleting "jsstring option"
  | SetEvents EventWithDays
  | SetFormData CreateEventData
  | Call_getAllEvents
  | Call_deleteEvent jsstring
  | Call_addEvent CreateEventData

section \<open>Events management view\<close>

record EventsManagement =
  searchTerm :: jsstring
  events :: "EventWithDays option"
  isLoading :: bool
  isDeleting :: "jsstring option"

text \<open>The state setters of the view; the other actions leave its state alone.\<close>

fun set_state :: "EventsManagement \<Rightarrow> effect \<Rightarrow> EventsManagement" where
  "set_state st (SetIsLoading b) = st\<lparr>isLoading := b\<rparr>"
| "set_state st (SetIsDeleting d) = st\<lparr>isDeleting := d\<rparr>"
| "set_state st (SetEvents ev) = st\<lparr>events := Some ev\<rparr>"
| "set_state st _ = st"

definition run :: "EventsManagement \<Rightarrow> effect list \<Rightarrow> EventsManagement" where
  "run st trace = foldl set_state st trace"

text \<open>
  \<^verbatim>\<open>fetchEvents\<close> up to its \<^verbatim>\<open>await\<close>, and from there on with the outcome of
  \<^verbatim>\<open>getAllEvents()\<close>.
\<close>

definition fetchEvents_start :: "effect list" where
  "fetchEvents_start = [SetIsLoading True, Call_getAllEvents]"

definition fetchEvents_resume :: "EventWithDays ApiResponse outcome \<Rightarrow> effect list" where
  "fetchEvents_resume fetched =
     (case fetched of
        Resolved result \<Rightarrow>
          (case (success result, data result) of
             (True, Some d) \<Rightarrow> [SetEvents d]
           | _ \<Rightarrow>
               [Toast (js ''Error'') (or_default (error result) (js ''Failed to fetch events''))])
      | Rejected \<Rightarrow> [Toast (js ''Error'') (js ''An unexpected error occurred'')])
     @ [SetIsLoading False]"

definition fetchEvents :: "EventWithDays ApiResponse outcome \<Rightarrow> effect list" where
  "fetchEvents fetched = fetchEvents_start @ fetchEvents_resume fetched"

text \<open>
  \<^verbatim>\<open>handleDeleteEvent\<close>, with the answer to the confirmation prompt and the outcomes of the
  two service calls. The refresh \<^verbatim>\<open>fetchEvents()\<close> is not awaited: it runs to its own
  \<^verbatim>\<open>await\<close>, the \<^verbatim>\<open>finally\<close> block of the handler runs, and the refresh resumes later.
\<close>

definition handleDeleteEvent ::
  "bool \<Rightarrow> jsstring \<Rightarrow> ('a ApiResponse) outcome \<Rightarrow> EventWithDays ApiResponse outcome
     \<Rightarrow> effect list" where
  "handleDeleteEvent confirmed eventId deleted fetched =
     (if \<not> confirmed then []
      else [SetIsDeleting (Some eventId), Call_deleteEvent eventId]
        @ (case deleted of
             Resolved result \<Rightarrow>
               if success result
               then [Toast (js ''Success'')
                       (or_default (message result) (js ''Event deleted successfully''))]
                    @ fetchEvents_start @ [SetIsDeleting None] @ fetchEvents_resume fetched
               else [Toast (js ''Error'') (or_default (error result) (js ''Failed to delete event'')),
                     SetIsDeleting None]
           | Rejected \<Rightarrow>
               [Toast (js ''Error'') (js ''An unexpected error occurred''), SetIsDeleting None]))"

text \<open>
  The derived list \<^verbatim>\<open>filteredDays\<close>; an array, even an empty one, is truthy. The platform's
  \<^verbatim>\<open>String.prototype.toLowerCase\<close> is a parameter: ECMAScript defines it by the
  locale-insensitive case mappings of the Unicode character database, which this
  development does not tabulate.
\<close>

definition matches :: "(jsstring \<Rightarrow> jsstring) \<Rightarrow> jsstring \<Rightarrow> EventDay \<Rightarrow> bool" where
  "matches toLowerCase term day =
     (includes_str (toLowerCase (EventDay.name day)) (toLowerCase term)
      \<or> includes_str (toLowerCase (EventDay.description day)) (toLowerCase term))"

definition filteredDays ::
  "(jsstring \<Rightarrow> jsstring) \<Rightarrow> EventWithDays option \<Rightarrow> jsstring \<Rightarrow> EventDay list" where
  "filteredDays toLowerCase evs term =
     (case evs of
        None \<Rightarrow> []
      | Some ev \<Rightarrow>
          (case days ev of None \<Rightarrow> [] | Some ds \<Rightarrow> filter (matches toLowerCase term) ds))"

text \<open>The source days of a fetched value: none when the value or its \<open>days\<close> is absent.\<close>

definition days_of :: "EventWithDays option \<Rightarrow> EventDay list" where
  "days_of evs =
     (case evs of None \<Rightarrow> [] | Some ev \<Rightarrow> (case days ev of None \<Rightarrow> [] | Some ds \<Rightarrow> ds))"

section \<open>Create event view\<close>

text \<open>
  What the view reads from \<^verbatim>\<open>Date\<close>: the time value of \<^verbatim>\<open>new Date(s)\<close> in milliseconds
  (\<open>None\<close> for an invalid date), \<^verbatim>\<open>toISOString\<close> of a time value, the time of \<^verbatim>\<open>new Date()\<close>
  when the form is submitted, and \<^verbatim>\<open>new Date().getFullYear()\<close> and
  \<^verbatim>\<open>new Date().getMonth()\<close> when the form is reset.
\<close>

record Dates =
  Date_parse :: "jsstring \<Rightarrow> int option"
  toISOString :: "int \<Rightarrow> jsstring"
  now :: int
  getFullYear :: int
  getMonth :: int

text \<open>\<^verbatim>\<open>new Date(s) < now\<close>: a comparison with an invalid date is false.\<close>

definition before :: "int option \<Rightarrow> int \<Rightarrow> bool" where
  "before d t = (case d of None \<Rightarrow> False | Some x \<Rightarrow> x < t)"

text \<open>The guard \<^verbatim>\<open>d && new Date(d) < now\<close> of \<^verbatim>\<open>handleSubmit\<close>; the empty string is falsy.\<close>

definition past_date :: "Dates \<Rightarrow> jsstring \<Rightarrow> bool" where
  "past_date env d = (d \<noteq> [] \<and> before (Date_parse env d) (now env))"

record CreateEvent =
  isLoading :: bool
  formData :: CreateEventData

fun set_form :: "CreateEvent \<Rightarrow> effect \<Rightarrow> CreateEvent" where
  "set_form st (SetIsLoading b) = st\<lparr>isLoading := b\<rparr>"
| "set_form st (SetFormData f) = st\<lparr>formData := f\<rparr>"
| "set_form st _ = st"

definition run_form :: "CreateEvent \<Rightarrow> effect list \<Rightarrow> CreateEvent" where
  "run_form st trace = foldl set_form st trace"

text \<open>The form as it is first shown and as it is reset.\<close>

definition emptyForm :: "Dates \<Rightarrow> CreateEventData" where
  "emptyForm env =
     \<lparr>name = [], description = [], startDate = [], endDate = [],
      year = Num (getFullYear env), month = Num (getMonth env + 1)\<rparr>"

text \<open>
  The payload built in the \<^verbatim>\<open>try\<close> block of \<^verbatim>\<open>handleSubmit\<close>. \<^verbatim>\<open>toISOString\<close> throws a
  RangeError on an invalid date (\<^verbatim>\<open>new Date("")\<close> is one): then there is no payload.
\<close>

definition eventData :: "Dates \<Rightarrow> CreateEventData \<Rightarrow> CreateEventData option" where
  "eventData env form =
     (case Date_parse env (startDate form) of
        None \<Rightarrow> None
      | Some s \<Rightarrow>
          (case Date_parse env (endDate form) of
             None \<Rightarrow> None
           | Some e \<Rightarrow> Some (form\<lparr>startDate := toISOString env s, endDate := toISOString env e\<rparr>)))"

text \<open>The \<^verbatim>\<open>try\<close> block with its \<^verbatim>\<open>catch\<close> clause, which takes every throw.\<close>

definition submit_try ::
  "Dates \<Rightarrow> (CreateEventData \<Rightarrow> ('a ApiResponse) outcome) \<Rightarrow> CreateEventData \<Rightarrow> effect list" where
  "submit_try env addEvent form =
     (case eventData env form of
        None \<Rightarrow> [Toast (js ''Error'') (js ''An unexpected error occurred'')]
      | Some d \<Rightarrow>
          Call_addEvent d #
          (case addEvent d of
             Resolved result \<Rightarrow>
               if success result
               then [Toast (js ''Success'')
                       (or_default (message result) (js ''Event created successfully'')),
                     SetFormData (emptyForm env)]
               else [Toast (js ''Error'')
                       (or_default (error result) (js ''Failed to create event''))]
           | Rejected \<Rightarrow> [Toast (js ''Error'') (js ''An unexpected error occurred'')]))"

definition handleSubmit ::
  "Dates \<Rightarrow> (CreateEventData \<Rightarrow> ('a ApiResponse) outcome) \<Rightarrow> CreateEventData \<Rightarrow> effect list" where
  "handleSubmit env addEvent form =
     PreventDefault #
     (if past_date env (startDate form)
      then [Toast (js ''Error'') (js ''Start Date cannot be in the past.'')]
      else if past_date env (endDate form)
      then [Toast (js ''Error'') (js ''End Date cannot be in the past.'')]
      else [SetIsLoading True] @ submit_try env addEvent form @ [SetIsLoading False])"

text \<open>
  The updater \<^verbatim>\<open>handleChange\<close> passes to \<^verbatim>\<open>setFormData\<close>, for the input named \<open>field\<close>. A key
  that names none of the six fields adds a property beside them and changes none of them.
\<close>

definition handleChange :: "jsstring \<Rightarrow> jsstring \<Rightarrow> CreateEventData \<Rightarrow> CreateEventData" where
  "handleChange field val prev =
     (if field = js ''year'' then prev\<lparr>year := or_zero (parseInt val)\<rparr>
      else if field = js ''month'' then prev\<lparr>month := or_zero (parseInt val)\<rparr>
      else if field = js ''name'' then prev\<lparr>name := val\<rparr>
      else if field = js ''description'' then prev\<lparr>description := val\<rparr>
      else if field = js ''startDate'' then prev\<lparr>startDate := val\<rparr>
      else if field = js ''endDate'' then prev\<lparr>endDate := val\<rparr>
      else prev)"

section \<open>Reading traces\<close>

text \<open>The values written to \<open>isDeleting\<close> and to \<open>events\<close>, the notifications shown and the
  payloads sent to \<^verbatim>\<open>addEvent\<close>, each in the order of the trace.\<close>

fun isDeleting_writes :: "effect list \<Rightarrow> jsstring option list" where
  "isDeleting_writes [] = []"
| "isDeleting_writes (SetIsDeleting d # t) = d # isDeleting_writes t"
| "isDeleting_writes (_ # t) = isDeleting_writes t"

fun events_writes :: "effect list \<Rightarrow> EventWithDays list" where
  "events_writes [] = []"
| "events_writes (SetEvents ev # t) = ev # events_writes t"
| "events_writes (_ # t) = events_writes t"

fun toasts :: "effect list \<Rightarrow> (jsstring \<times> jsstring) list" where
  "toasts [] = []"
| "toasts (Toast title desc # t) = (title, desc) # toasts t"
| "toasts (_ # t) = toasts t"

fun addEvent_calls :: "effect list \<Rightarrow> CreateEventData list" where
  "addEvent_calls [] = []"
| "addEvent_calls (Call_addEvent d # t) = d # addEvent_calls t"
| "addEvent_calls (_ # t) = addEvent_calls t"

text \<open>A service call failed: it resolved with \<^verbatim>\<open>success === false\<close>, or it threw.\<close>

definition failed :: "('a ApiResponse) outcome \<Rightarrow> bool" where
  "failed res = (case res of Resolved r \<Rightarrow> \<not> success r | Rejected \<Rightarrow> True)"

text \<open>A fetch gave data: it resolved with \<^verbatim>\<open>success === true\<close> and a \<open>data\<close> field.\<close>

definition usable :: "('a ApiResponse) outcome \<Rightarrow> bool" where
  "usable res = (case res of Resolved r \<Rightarrow> success r \<and> data r \<noteq> None | Rejected \<Rightarrow> False)"

section \<open>Sample data\<close>

definition opening_day :: EventDay where
  "opening_day =
     \<lparr>day_id = js ''d1'', dayNumber = 1, name = js ''Opening Day'',
      description = js ''Welcome address''\<rparr>"

definition poetry_day :: EventDay where
  "poetry_day =
     \<lparr>day_id = js ''d2'', dayNumber = 2, name = js ''Poetry Reading'',
      description = js ''Local poets''\<rparr>"

definition spring_fest :: EventWithDays where
  "spring_fest =
     \<lparr>event = \<lparr>event_id = js ''e1'', name = js ''Spring Fest 2025'',
                description = js ''Literature festival'',
                startDate = js ''2025-03-01T10:00:00.000Z'',
                endDate = js ''2025-03-02T18:00:00.000Z'', totalDays = 2\<rparr>,
      days = Some [opening_day, poetry_day]\<rparr>"

definition spring_form :: CreateEventData where
  "spring_form =
     \<lparr>name = js ''Spring Fest 2025'', description = js ''Literature festival'',
      startDate = js ''2025-03-01T10:00'', endDate = js ''2025-03-02T18:00'',
      year = Num 2025, month = Num 3\<rparr>"

text \<open>
  A \<^verbatim>\<open>Date\<close> in UTC that knows the two dates of the form, at the current time \<open>t\<close> in the
  year \<open>y\<close> and the month numbered \<open>m\<close> from 0.
\<close>

definition dates_at :: "int \<Rightarrow> int \<Rightarrow> int \<Rightarrow> Dates" where
  "dates_at t y m =
     \<lparr>Date_parse = (\<lambda>s. if s = js ''2025-03-01T10:00'' then Some 1740823200000
                          else if s = js ''2025-03-02T18:00'' then Some 1740938400000
                          else None),
      toISOString = (\<lambda>x. if x = 1740823200000 then js ''2025-03-01T10:00:00.000Z''
                           else js ''2025-03-02T18:00:00.000Z''),
      now = t, getFullYear = y, getMonth = m\<rparr>"

definition created :: "CreateEventData \<Rightarrow> (unit ApiResponse) outcome" where
  "created d =
     Resolved \<lparr>success = True, data = None, message = Some (js ''Event created''), error = None\<rparr>"

definition refused :: "CreateEventData \<Rightarrow> (unit ApiResponse) outcome" where
  "refused d =
     Resolved \<lparr>success = False, data = None, message = None, error = Some (js ''Name taken'')\<rparr>"

definition fetched_spring :: "(EventWithDays ApiResponse) outcome" where
  "fetched_spring =
     Resolved \<lparr>success = True, data = Some spring_fest, message = None, error = None\<rparr>"

definition fetched_nothing :: "(EventWithDays ApiResponse) outcome" where
  "fetched_nothing = Resolved \<lparr>success = True, data = None, message = None, error = None\<rparr>"

definition deleted_ok :: "(unit ApiResponse) outcome" where
  "deleted_ok =
     Resolved \<lparr>success = True, data = None, message = Some (js ''Event deleted''), error = None\<rparr>"

definition delete_refused :: "(unit ApiResponse) outcome" where
  "delete_refused =
     Resolved \<lparr>success = False, data = None, message = None, error = Some (js ''Not found'')\<rparr>"

definition delete_threw :: "(unit ApiResponse) outcome" where
  "delete_threw = Rejected"

text \<open>
  A day named Alpha Sigma Alpha (U+0391 U+03A3 U+0391), as the service may return it, in an
  event of one day.
\<close>

definition alpha_day :: EventDay where
  "alpha_day =
     \<lparr>day_id = js ''d1'', dayNumber = 1, name = [0x391, 0x3A3, 0x391],
      description = js ''Opening day''\<rparr>"

definition alpha_fest :: EventWithDays where
  "alpha_fest =
     \<lparr>event = \<lparr>event_id = js ''e1'', name = js ''Fest'', description = js ''Festival'',
                startDate = js ''2025-03-01T10:00:00.000Z'',
                endDate = js ''2025-03-02T18:00:00.000Z'', totalDays = 1\<rparr>,
      days = Some [alpha_day]\<rparr>"

text \<open>
  \<^verbatim>\<open>toLowerCase\<close> on the strings of this sample. A capital sigma lower-cases to the final
  form U+03C2 when a cased letter stands before it and none after it (the conditional
  mapping Final_Sigma of \<^verbatim>\<open>SpecialCasing.txt\<close>), and to U+03C3 otherwise. No other string is
  lower-cased below.
\<close>

definition sample_lower :: "jsstring \<Rightarrow> jsstring" where
  "sample_lower s =
     (if s = [0x391, 0x3A3, 0x391] then [0x3B1, 0x3C3, 0x3B1]
      else if s = [0x391, 0x3A3] then [0x3B1, 0x3C2]
      else if s = [0x391] then [0x3B1]
      else if s = js ''Opening day'' then js ''opening day''
      else s)"

definition empty_view :: EventsManagement where
  "empty_view = \<lparr>searchTerm = [], events = None, isLoading = False, isDeleting = None\<rparr>"

section \<open>Replaying traces\<close>

lemma run_Nil [simp]: "run st [] = st"
  by (simp add: run_def)

lemma run_Cons [simp]: "run st (a # t) = run (set_state st a) t"
  by (simp add: run_def)

lemma run_append [simp]: "run st (t @ u) = run (run st t) u"
  by (simp add: run_def)

lemma run_form_Nil [simp]: "run_form st [] = st"
  by (simp add: run_form_def)

lemma run_form_Cons [simp]: "run_form st (a # t) = run_form (set_form st a) t"
  by (simp add: run_form_def)

lemma run_form_append [simp]: "run_form st (t @ u) = run_form (run_form st t) u"
  by (simp add: run_form_def)

lemma isDeleting_writes_append [simp]:
  "isDeleting_writes (t @ u) = isDeleting_writes t @ isDeleting_writes u"
  by (induction t rule: isDeleting_writes.induct) auto

lemma events_writes_append [simp]: "events_writes (t @ u) = events_writes t @ events_writes u"
  by (induction t rule: events_writes.induct) auto

lemma toasts_append [simp]: "toasts (t @ u) = toasts t @ toasts u"
  by (induction t rule: toasts.induct) auto

lemma addEvent_calls_append [simp]:
  "addEvent_calls (t @ u) = addEvent_calls t @ addEvent_calls u"
  by (induction t rule: addEvent_calls.induct) auto

section \<open>Events management view: deleting and fetching\<close>

lemma fetchEvents_resume_isDeleting [simp]: "isDeleting_writes (fetchEvents_resume f) = []"
  by (simp add: fetchEvents_resume_def split: outcome.splits option.splits bool.splits)

lemma fetchEvents_resume_keeps_isDeleting [simp]:
  "isDeleting (run st (fetchEvents_resume f)) = isDeleting st"
  by (simp add: fetchEvents_resume_def split: outcome.splits option.splits bool.splits)



text \<open>
  Claim C4. When the delete call resolves with \<^verbatim>\<open>success === false\<close> or throws, the handler
  writes nothing to \<open>events\<close>, starts no fetch, and leaves \<open>events\<close> as it was. Whenever a run
  of the handler changes \<open>events\<close>, the delete was confirmed and succeeded, and the change
  comes from the refresh, whose fetch gave data.
\<close>

theorem handleDeleteEvent_no_optimistic_removal:
  "(failed deleted \<longrightarrow>
      events_writes (handleDeleteEvent confirmed e deleted fetched) = []
      \<and> Call_getAllEvents \<notin> set (handleDeleteEvent confirmed e deleted fetched)
      \<and> events (run st (handleDeleteEvent confirmed e deleted fetched)) = events st)
   \<and> (events (run st (handleDeleteEvent confirmed e deleted fetched)) \<noteq> events st \<longrightarrow>
        confirmed \<and> \<not> failed deleted \<and> usable fetched
        \<and> Call_getAllEvents \<in> set (handleDeleteEvent confirmed e deleted fetched))"
  by (auto simp: handleDeleteEvent_def failed_def usable_def fetchEvents_start_def
      fetchEvents_resume_def split: outcome.splits option.splits bool.splits)

theorem handleDeleteEvent_no_optimistic_removal_witness:
  "failed delete_refused
   \<and> events (run (empty_view\<lparr>events := Some spring_fest\<rparr>)
        (handleDeleteEvent True (js ''e1'') delete_refused fetched_nothing)) = Some spring_fest
   \<and> failed delete_threw
   \<and> events (run (empty_view\<lparr>events := Some spring_fest\<rparr>)
        (handleDeleteEvent True (js ''e1'') delete_threw fetched_nothing)) = Some spring_fest
   \<and> events (run empty_view (handleDeleteEvent True (js ''e1'') deleted_ok fetched_spring))
        \<noteq> events empty_view
   \<and> usable fetched_spring"
  using handleDeleteEvent_no_optimistic_removal
      [of delete_refused True "js ''e1''" fetched_nothing "empty_view\<lparr>events := Some spring_fest\<rparr>"]
    handleDeleteEvent_no_optimistic_removal
      [of delete_threw True "js ''e1''" fetched_nothing "empty_view\<lparr>events := Some spring_fest\<rparr>"]
    handleDeleteEvent_no_optimistic_removal
      [of deleted_ok True "js ''e1''" fetched_spring empty_view]
  by (simp add: failed_def delete_refused_def delete_threw_def deleted_ok_def empty_view_def
      handleDeleteEvent_def fetchEvents_start_def fetchEvents_resume_def fetched_spring_def)

text \<open>
  Claim C7. \<^verbatim>\<open>fetchEvents\<close> always ends with \<open>isLoading\<close> false. When the fetch does not
  resolve with \<^verbatim>\<open>success === true\<close> and data (it resolved with \<^verbatim>\<open>success === false\<close>, or
  without data, or it threw), nothing is written to \<open>events\<close>, \<open>events\<close> is as before, and
  exactly one notification is shown, titled Error. When it does, the data become \<open>events\<close>
  and no notification is shown.
\<close>

theorem fetchEvents_updates_only_on_data:
  "EventsManagement.isLoading (run st (fetchEvents fetched)) = False
   \<and> (\<not> usable fetched \<longrightarrow>
        events (run st (fetchEvents fetched)) = events st
        \<and> events_writes (fetchEvents fetched) = []
        \<and> length (toasts (fetchEvents fetched)) = 1
        \<and> map fst (toasts (fetchEvents fetched)) = [js ''Error''])
   \<and> (usable fetched \<longrightarrow>
        toasts (fetchEvents fetched) = []
        \<and> (\<exists>r d. fetched = Resolved r \<and> data r = Some d
              \<and> events (run st (fetchEvents fetched)) = Some d))"
  by (auto simp: fetchEvents_def usable_def fetchEvents_start_def
      fetchEvents_resume_def split: outcome.splits option.splits bool.splits)

theorem fetchEvents_updates_only_on_data_witness:
  "\<not> usable fetched_nothing
   \<and> events (run (empty_view\<lparr>events := Some spring_fest\<rparr>) (fetchEvents fetched_nothing))
       = Some spring_fest
   \<and> toasts (fetchEvents fetched_nothing) = [(js ''Error'', js ''Failed to fetch events'')]
   \<and> \<not> usable (Rejected :: (EventWithDays ApiResponse) outcome)
   \<and> toasts (fetchEvents Rejected) = [(js ''Error'', js ''An unexpected error occurred'')]
   \<and> usable fetched_spring
   \<and> events (run empty_view (fetchEvents fetched_spring)) = Some spring_fest"
  using fetchEvents_updates_only_on_data
      [of "empty_view\<lparr>events := Some spring_fest\<rparr>" fetched_nothing]
    fetchEvents_updates_only_on_data [of empty_view "Rejected"]
    fetchEvents_updates_only_on_data [of empty_view fetched_spring]
  by (simp add: usable_def fetched_nothing_def fetched_spring_def fetchEvents_def
      fetchEvents_start_def fetchEvents_resume_def or_default_def empty_view_def)

text \<open>
  Claim C9. When the user declines the confirmation prompt, the handler does nothing at all:
  its trace is empty (no call of \<^verbatim>\<open>deleteEvent\<close>, no write to \<open>isDeleting\<close>, no notification),
  and the state of the view is the one before.
\<close>

theorem handleDeleteEvent_declined:
  "handleDeleteEvent False e deleted fetched = []
   \<and> run st (handleDeleteEvent False e deleted fetched) = st"
  by (simp add: handleDeleteEvent_def)

theorem handleDeleteEvent_declined_witness:
  "handleDeleteEvent False (js ''e1'') deleted_ok fetched_spring = []
   \<and> run (empty_view\<lparr>events := Some spring_fest\<rparr>)
       (handleDeleteEvent False (js ''e1'') deleted_ok fetched_spring)
     = empty_view\<lparr>events := Some spring_fest\<rparr>"
  using handleDeleteEvent_declined
      [of "js ''e1''" deleted_ok fetched_spring "empty_view\<lparr>events := Some spring_fest\<rparr>"]
  by simp

section \<open>Events management view: the filtered days\<close>

lemma filteredDays_days_of:
  "filteredDays toLowerCase evs term = filter (matches toLowerCase term) (days_of evs)"
  by (simp add: filteredDays_def days_of_def split: option.splits)

text \<open>
  Whatever \<^verbatim>\<open>toLowerCase\<close> computes, the filtered days are a subsequence of the source days,
  no longer than they are, and there are none when no value was fetched, when \<open>days\<close> is
  absent and when \<open>days\<close> is empty.
\<close>

lemma filteredDays_subseq:
  "subseq (filteredDays toLowerCase evs term) (days_of evs)
   \<and> length (filteredDays toLowerCase evs term) \<le> length (days_of evs)
   \<and> filteredDays toLowerCase None term = []
   \<and> filteredDays toLowerCase (Some (ev\<lparr>days := None\<rparr>)) term = []
   \<and> filteredDays toLowerCase (Some (ev\<lparr>days := Some []\<rparr>)) term = []"
  unfolding filteredDays_days_of
  by (simp add: days_of_def)

text \<open>
  Claim C5, at the input where the code departs from it. The one source day is named
  U+0391 U+03A3 U+0391. With \<^verbatim>\<open>toLowerCase\<close> as ECMAScript defines it on the four strings
  involved, the search term U+0391 finds the day, but the search term U+0391 U+03A3 finds
  nothing, although the name contains it as it stands: the filtered list is not the list
  of the days that contain the term.
\<close>

theorem filteredDays_misses_final_sigma:
  assumes "toLowerCase [0x391, 0x3A3, 0x391] = [0x3B1, 0x3C3, 0x3B1]"
    and "toLowerCase [0x391, 0x3A3] = [0x3B1, 0x3C2]"
    and "toLowerCase [0x391] = [0x3B1]"
    and "toLowerCase (js ''Opening day'') = js ''opening day''"
  shows "filteredDays toLowerCase (Some alpha_fest) [0x391] = [alpha_day]
    \<and> filteredDays toLowerCase (Some alpha_fest) [0x391, 0x3A3] = []
    \<and> filter (\<lambda>d. sublist [0x391, 0x3A3] (EventDay.name d)) (days_of (Some alpha_fest))
        = [alpha_day]"
  using assms
  by (simp add: filteredDays_def matches_def includes_str_def days_of_def alpha_fest_def
      alpha_day_def js_def sublist_code prefix_code)

theorem filteredDays_misses_final_sigma_witness:
  "sample_lower [0x391, 0x3A3, 0x391] = [0x3B1, 0x3C3, 0x3B1]
   \<and> sample_lower [0x391, 0x3A3] = [0x3B1, 0x3C2]
   \<and> sample_lower [0x391] = [0x3B1]
   \<and> sample_lower (js ''Opening day'') = js ''opening day''
   \<and> filteredDays sample_lower (Some alpha_fest) [0x391] = [alpha_day]
   \<and> filteredDays sample_lower (Some alpha_fest) [0x391, 0x3A3] = []"
proof -
  have 1: "sample_lower [0x391, 0x3A3, 0x391] = [0x3B1, 0x3C3, 0x3B1]"
    and 2: "sample_lower [0x391, 0x3A3] = [0x3B1, 0x3C2]"
    and 3: "sample_lower [0x391] = [0x3B1]"
    and 4: "sample_lower (js ''Opening day'') = js ''opening day''"
    by (simp_all add: sample_lower_def js_def)
  from filteredDays_misses_final_sigma [OF 1 2 3 4] 1 2 3 4 show ?thesis
    by simp
qed

text \<open>
  Claim C6, at the input where the code departs from it. The day named
  U+0391 U+03A3 U+0391 is among the fetched days and the search term U+0391 U+03A3 is a
  substring of its name, yet the filtered days do not include it. The whole name as search
  term does find it.
\<close>

theorem filteredDays_excludes_name_substring:
  assumes "toLowerCase [0x391, 0x3A3, 0x391] = [0x3B1, 0x3C3, 0x3B1]"
    and "toLowerCase [0x391, 0x3A3] = [0x3B1, 0x3C2]"
    and "toLowerCase (js ''Opening day'') = js ''opening day''"
  shows "alpha_day \<in> set (days_of (Some alpha_fest))
    \<and> sublist [0x391, 0x3A3] (EventDay.name alpha_day)
    \<and> alpha_day \<notin> set (filteredDays toLowerCase (Some alpha_fest) [0x391, 0x3A3])
    \<and> alpha_day \<in> set (filteredDays toLowerCase (Some alpha_fest) [0x391, 0x3A3, 0x391])"
  using assms
  by (simp add: filteredDays_def matches_def includes_str_def days_of_def alpha_fest_def
      alpha_day_def js_def sublist_code prefix_code)

theorem filteredDays_excludes_name_substring_witness:
  "sample_lower [0x391, 0x3A3, 0x391] = [0x3B1, 0x3C3, 0x3B1]
   \<and> sample_lower [0x391, 0x3A3] = [0x3B1, 0x3C2]
   \<and> sample_lower (js ''Opening day'') = js ''opening day''
   \<and> sublist [0x391, 0x3A3] (EventDay.name alpha_day)
   \<and> alpha_day \<notin> set (filteredDays sample_lower (Some alpha_fest) [0x391, 0x3A3])"
proof -
  have 1: "sample_lower [0x391, 0x3A3, 0x391] = [0x3B1, 0x3C3, 0x3B1]"
    and 2: "sample_lower [0x391, 0x3A3] = [0x3B1, 0x3C2]"
    and 3: "sample_lower (js ''Opening day'') = js ''opening day''"
    by (simp_all add: sample_lower_def js_def)
  from filteredDays_excludes_name_substring [OF 1 2 3] 1 2 3 show ?thesis
    by simp
qed

section \<open>Create event view: submitting\<close>

text \<open>
  Claim C2. When the start date of the form is set and lies strictly before the current
  time, submitting shows the notification Error, Start Date cannot be in the past, and
  returns: \<^verbatim>\<open>addEvent\<close> is not called and the state of the view is as before.
\<close>

theorem handleSubmit_past_start_date:
  "startDate form \<noteq> [] \<and> Date_parse env (startDate form) = Some t \<and> t < now env \<longrightarrow>
     handleSubmit env addEvent form
       = [PreventDefault, Toast (js ''Error'') (js ''Start Date cannot be in the past.'')]
     \<and> addEvent_calls (handleSubmit env addEvent form) = []
     \<and> run_form st (handleSubmit env addEvent form) = st"
  by (simp add: handleSubmit_def before_def past_date_def)

text \<open>The sample form, submitted in June 2025.\<close>

theorem handleSubmit_past_start_date_witness:
  "startDate spring_form \<noteq> []
   \<and> Date_parse (dates_at 1750000000000 2025 5) (startDate spring_form) = Some 1740823200000
   \<and> 1740823200000 < now (dates_at 1750000000000 2025 5)
   \<and> toasts (handleSubmit (dates_at 1750000000000 2025 5) created spring_form)
       = [(js ''Error'', js ''Start Date cannot be in the past.'')]
   \<and> addEvent_calls (handleSubmit (dates_at 1750000000000 2025 5) created spring_form) = []
   \<and> run_form \<lparr>isLoading = False, formData = spring_form\<rparr>
        (handleSubmit (dates_at 1750000000000 2025 5) created spring_form)
       = \<lparr>isLoading = False, formData = spring_form\<rparr>"
  using handleSubmit_past_start_date
      [of spring_form "dates_at 1750000000000 2025 5" 1740823200000 created
          "\<lparr>isLoading = False, formData = spring_form\<rparr>"]
  by (simp add: spring_form_def dates_at_def js_def)

lemma submit_try_calls:
  "addEvent_calls (submit_try env addEvent form)
     = (case eventData env form of None \<Rightarrow> [] | Some d \<Rightarrow> [d])"
  by (simp add: submit_try_def split: option.splits outcome.splits)

lemma submit_try_formData:
  "formData (run_form st (submit_try env addEvent form))
     = (case eventData env form of
          None \<Rightarrow> formData st
        | Some d \<Rightarrow> if failed (addEvent d) then formData st else emptyForm env)"
  by (simp add: submit_try_def failed_def split: option.splits outcome.splits)

lemma handleSubmit_calls:
  "addEvent_calls (handleSubmit env addEvent form)
     = (if past_date env (startDate form) \<or> past_date env (endDate form) then []
        else addEvent_calls (submit_try env addEvent form))"
  by (simp add: handleSubmit_def)

lemma handleSubmit_formData:
  "formData (run_form st (handleSubmit env addEvent form))
     = (if past_date env (startDate form) \<or> past_date env (endDate form) then formData st
        else formData (run_form (st\<lparr>isLoading := True\<rparr>) (submit_try env addEvent form)))"
  by (simp add: handleSubmit_def)

text \<open>
  Claim C8. A submission calls \<^verbatim>\<open>addEvent\<close> at most once. When the call resolves with
  \<^verbatim>\<open>success === true\<close>, the form is reset: name, description, start date and end date are
  empty strings, the year is the current year and the month the current month
  (\<^verbatim>\<open>getMonth() + 1\<close>). When every call made fails (with \<^verbatim>\<open>success === false\<close> or by a
  throw), the form keeps its values.
\<close>

theorem handleSubmit_form_reset:
  "(addEvent_calls (handleSubmit env addEvent form) = [d] \<and> \<not> failed (addEvent d) \<longrightarrow>
      formData (run_form st (handleSubmit env addEvent form))
        = \<lparr>name = [], description = [], startDate = [], endDate = [],
           year = Num (getFullYear env), month = Num (getMonth env + 1)\<rparr>)
   \<and> (list_all (\<lambda>d. failed (addEvent d)) (addEvent_calls (handleSubmit env addEvent form)) \<longrightarrow>
        formData (run_form st (handleSubmit env addEvent form)) = formData st)
   \<and> length (addEvent_calls (handleSubmit env addEvent form)) \<le> 1"
proof (cases "past_date env (startDate form) \<or> past_date env (endDate form)")
  case True
  then show ?thesis
    by (simp add: handleSubmit_calls handleSubmit_formData)
next
  case False
  show ?thesis
  proof (cases "eventData env form")
    case None
    with False show ?thesis
      by (simp add: handleSubmit_calls handleSubmit_formData submit_try_calls submit_try_formData)
  next
    case (Some d')
    with False show ?thesis
      by (simp add: handleSubmit_calls handleSubmit_formData submit_try_calls submit_try_formData
          emptyForm_def)
  qed
qed

lemma spring_payload:
  "eventData (dates_at t y m) spring_form
     = Some (spring_form\<lparr>startDate := js ''2025-03-01T10:00:00.000Z'',
                            endDate := js ''2025-03-02T18:00:00.000Z''\<rparr>)"
  by (simp add: eventData_def dates_at_def spring_form_def js_def)

lemma spring_not_past:
  "\<not> past_date (dates_at 1739180000000 2025 1) (startDate spring_form)"
  "\<not> past_date (dates_at 1739180000000 2025 1) (endDate spring_form)"
  by (simp_all add: past_date_def before_def dates_at_def spring_form_def js_def)

text \<open>The sample form, submitted in February 2025: accepted, refused.\<close>

theorem handleSubmit_form_reset_witness:
  "addEvent_calls (handleSubmit (dates_at 1739180000000 2025 1) created spring_form)
     = [spring_form\<lparr>startDate := js ''2025-03-01T10:00:00.000Z'',
                     endDate := js ''2025-03-02T18:00:00.000Z''\<rparr>]
   \<and> \<not> failed (created (spring_form\<lparr>startDate := js ''2025-03-01T10:00:00.000Z'',
                                       endDate := js ''2025-03-02T18:00:00.000Z''\<rparr>))
   \<and> formData (run_form \<lparr>isLoading = False, formData = spring_form\<rparr>
        (handleSubmit (dates_at 1739180000000 2025 1) created spring_form))
       = \<lparr>name = [], description = [], startDate = [], endDate = [],
          year = Num 2025, month = Num 2\<rparr>
   \<and> list_all (\<lambda>d. failed (refused d))
        (addEvent_calls (handleSubmit (dates_at 1739180000000 2025 1) refused spring_form))
   \<and> formData (run_form \<lparr>isLoading = False, formData = spring_form\<rparr>
        (handleSubmit (dates_at 1739180000000 2025 1) refused spring_form))
       = spring_form"
  using handleSubmit_form_reset
      [of "dates_at 1739180000000 2025 1" created spring_form
          "spring_form\<lparr>startDate := js ''2025-03-01T10:00:00.000Z'',
                        endDate := js ''2025-03-02T18:00:00.000Z''\<rparr>"
          "\<lparr>isLoading = False, formData = spring_form\<rparr>"]
    handleSubmit_form_reset
      [of "dates_at 1739180000000 2025 1" refused spring_form
          "spring_form\<lparr>startDate := js ''2025-03-01T10:00:00.000Z'',
                        endDate := js ''2025-03-02T18:00:00.000Z''\<rparr>"
          "\<lparr>isLoading = False, formData = spring_form\<rparr>"]
  by (simp add: handleSubmit_calls submit_try_calls spring_payload spring_not_past
      failed_def created_def refused_def)
     (simp add: dates_at_def)

section \<open>Create event view: editing a field\<close>

lemma or_zero_number [simp]: "or_zero n \<noteq> NaN"
  by (simp add: or_zero_def split: number.splits)

lemma or_zero_NaN [simp]: "or_zero NaN = Num 0"
  by (simp add: or_zero_def)

lemma or_zero_Num [simp]: "or_zero (Num k) = Num k"
  by (simp add: or_zero_def)

lemma parseInt_empty: "parseInt [] = NaN"
  by (simp add: parseInt_def)

lemma handleChange_year:
  "handleChange (js ''year'') v prev = prev\<lparr>year := or_zero (parseInt v)\<rparr>"
  by (simp add: handleChange_def)

lemma handleChange_month:
  "handleChange (js ''month'') v prev = prev\<lparr>month := or_zero (parseInt v)\<rparr>"
  by (simp add: handleChange_def js_def)

lemma handleChange_name: "handleChange (js ''name'') v prev = prev\<lparr>name := v\<rparr>"
  by (simp add: handleChange_def js_def)

lemma handleChange_description:
  "handleChange (js ''description'') v prev = prev\<lparr>description := v\<rparr>"
  by (simp add: handleChange_def js_def)

lemma handleChange_startDate:
  "handleChange (js ''startDate'') v prev = prev\<lparr>startDate := v\<rparr>"
  by (simp add: handleChange_def js_def)

lemma handleChange_endDate: "handleChange (js ''endDate'') v prev = prev\<lparr>endDate := v\<rparr>"
  by (simp add: handleChange_def js_def)

lemma handleChange_other:
  "field \<noteq> js ''year'' \<Longrightarrow> field \<noteq> js ''month'' \<Longrightarrow>
     year (handleChange field v prev) = year prev \<and> month (handleChange field v prev) = month prev"
  by (simp add: handleChange_def)

lemma handleChange_keeps_numbers:
  "year prev \<noteq> NaN \<Longrightarrow> month prev \<noteq> NaN \<Longrightarrow>
     year (handleChange field v prev) \<noteq> NaN \<and> month (handleChange field v prev) \<noteq> NaN"
  by (simp add: handleChange_def)

text \<open>
  Claim C10. After a change of the year or of the month field the stored value is a number
  and not \<open>NaN\<close>: the integer \<^verbatim>\<open>parseInt\<close> reads from the field value, and 0 when it reads
  none, as from the empty string. A form whose year and month are numbers keeps them so
  under every change. A change of another field leaves year and month as they are, and a
  change of name, description, start date or end date stores the field value as it is.
\<close>

theorem handleChange_year_month_number:
  "year (handleChange (js ''year'') v prev) \<noteq> NaN
   \<and> month (handleChange (js ''month'') v prev) \<noteq> NaN
   \<and> (parseInt v = NaN \<longrightarrow>
        year (handleChange (js ''year'') v prev) = Num 0
        \<and> month (handleChange (js ''month'') v prev) = Num 0)
   \<and> (parseInt v = Num k \<longrightarrow>
        year (handleChange (js ''year'') v prev) = Num k
        \<and> month (handleChange (js ''month'') v prev) = Num k)
   \<and> parseInt [] = NaN
   \<and> (year prev \<noteq> NaN \<and> month prev \<noteq> NaN \<longrightarrow>
        year (handleChange field v prev) \<noteq> NaN \<and> month (handleChange field v prev) \<noteq> NaN)
   \<and> (field \<noteq> js ''year'' \<and> field \<noteq> js ''month'' \<longrightarrow>
        year (handleChange field v prev) = year prev
        \<and> month (handleChange field v prev) = month prev)
   \<and> handleChange (js ''name'') v prev = prev\<lparr>name := v\<rparr>
   \<and> handleChange (js ''description'') v prev = prev\<lparr>description := v\<rparr>
   \<and> handleChange (js ''startDate'') v prev = prev\<lparr>startDate := v\<rparr>
   \<and> handleChange (js ''endDate'') v prev = prev\<lparr>endDate := v\<rparr>"
  using handleChange_other [of field v prev] handleChange_keeps_numbers [of prev field v]
  by (simp add: handleChange_year handleChange_month handleChange_name handleChange_description
      handleChange_startDate handleChange_endDate parseInt_empty)

lemmas parseInt_eval =
  parseInt_def parsePrefix_def parseDigits_def digitsValue_def digitValue_def isWhiteSpace_def

lemma parseInt_samples:
  "parseInt (js ''abc'') = NaN"
  "parseInt (js ''2026'') = Num 2026"
  "parseInt (js '' 12px'') = Num 12"
  "parseInt (js ''-0x1F'') = Num (- 31)"
  "parseInt (js ''-'') = NaN"
  by (simp_all add: parseInt_eval js_def)

theorem handleChange_year_month_number_witness:
  "parseInt (js ''abc'') = NaN
   \<and> year (handleChange (js ''year'') (js ''abc'') spring_form) = Num 0
   \<and> parseInt (js ''2026'') = Num 2026
   \<and> month (handleChange (js ''month'') (js ''2026'') spring_form) = Num 2026
   \<and> year spring_form \<noteq> NaN \<and> month spring_form \<noteq> NaN
   \<and> js ''name'' \<noteq> js ''year'' \<and> js ''name'' \<noteq> js ''month''
   \<and> year (handleChange (js ''name'') (js ''2026'') spring_form) = Num 2025
   \<and> month (handleChange (js ''name'') (js ''2026'') spring_form) = Num 3
   \<and> CreateEventData.name (handleChange (js ''name'') (js ''2026'') spring_form) = js ''2026''"
  using handleChange_year_month_number [of "js ''abc''" spring_form 0 "js ''name''"]
    handleChange_year_month_number [of "js ''2026''" spring_form 2026 "js ''name''"]
  by (simp add: parseInt_samples) (simp add: spring_form_def js_def)

end
